theory Spec2Isabelle
  imports Main "HOL-Library.Sublist"
begin

section \<open>Values of the host language\<close>

text \<open>
  Strings are lists of code units; the model covers the code units below 256 (ASCII and
  Latin-1), which is what \<^typ>\<open>char\<close> holds. A number is a double: here \<open>NaN\<close>, the two
  infinities, or an integer that a double holds.
\<close>

datatype number = NaN | Num int | PosInfinity | NegInfinity

text \<open>
  \<open>a >= b\<close> and \<open>a <= b\<close> with a finite integer on the left: false when the right is
  \<open>NaN\<close>.
\<close>

fun ge :: "int \<Rightarrow> number \<Rightarrow> bool" where
  "ge a NaN = False"
| "ge a (Num b) = (b \<le> a)"
| "ge a PosInfinity = False"
| "ge a NegInfinity = True"

fun le :: "int \<Rightarrow> number \<Rightarrow> bool" where
  "le a NaN = False"
| "le a (Num b) = (a \<le> b)"
| "le a PosInfinity = True"
| "le a NegInfinity = False"

text \<open>Truthiness of a string: only the empty string is falsy.\<close>

definition truthy :: "string \<Rightarrow> bool" where
  "truthy s = (s \<noteq> [])"

definition lowerChar :: "char \<Rightarrow> char" where
  "lowerChar c =
     (let n = (of_char c :: nat)
      in if (65 \<le> n \<and> n \<le> 90) \<or> (192 \<le> n \<and> n \<le> 222 \<and> n \<noteq> 215)
         then char_of (n + 32) else c)"

definition toLowerCase :: "string \<Rightarrow> string" where
  "toLowerCase s = map lowerChar s"

text \<open>\<open>s.includes(sub)\<close>: \<open>sub\<close> occurs in \<open>s\<close> as a contiguous run.\<close>

fun includes_str :: "string \<Rightarrow> string \<Rightarrow> bool" where
  "includes_str [] sub = (sub = [])"
| "includes_str (c # cs) sub = (prefix sub (c # cs) \<or> includes_str cs sub)"

subsection \<open>The double nearest to an integer\<close>

text \<open>The number of binary digits of a positive integer.\<close>

function bitlen :: "int \<Rightarrow> nat" where
  "bitlen a = (if a \<le> 0 then 0 else Suc (bitlen (a div 2)))"
  by pat_completeness auto
termination
  by (relation "measure nat") auto

text \<open>
  The number value of a mathematical integer: the nearest double, a tie going to the even
  significand of 53 binary digits, and an infinity from \<open>2 ^ 1024\<close> on. Integers up to
  \<open>2 ^ 53\<close> in magnitude are kept as they are. Minus zero is zero here; no comparison
  tells the two apart.
\<close>

definition toNumber :: "int \<Rightarrow> number" where
  "toNumber x =
     (let a = \<bar>x\<bar>;
          e = (if bitlen a \<le> 53 then 0 else bitlen a - 53);
          q = a div 2 ^ e;
          r = a mod 2 ^ e;
          q = (if 2 ^ e < 2 * r \<or> (2 * r = 2 ^ e \<and> odd q) then q + 1 else q)
      in if 2 ^ 1024 \<le> q * 2 ^ e then (if x < 0 then NegInfinity else PosInfinity)
         else Num (sgn x * (q * 2 ^ e)))"

subsection \<open>parseInt without a radix argument\<close>

definition isWhiteSpace :: "char \<Rightarrow> bool" where
  "isWhiteSpace c = ((of_char c :: nat) \<in> {9, 10, 11, 12, 13, 32, 160})"

definition digitValue :: "char \<Rightarrow> nat option" where
  "digitValue c =
     (let n = (of_char c :: nat)
      in if 48 \<le> n \<and> n \<le> 57 then Some (n - 48)
         else if 97 \<le> n \<and> n \<le> 122 then Some (n - 87)
         else if 65 \<le> n \<and> n \<le> 90 then Some (n - 55)
         else None)"

definition isRadixDigit :: "nat \<Rightarrow> char \<Rightarrow> bool" where
  "isRadixDigit R c = (case digitValue c of None \<Rightarrow> False | Some d \<Rightarrow> d < R)"

text \<open>The mathematical integer that a run of digits stands for in radix \<open>R\<close>.\<close>

definition mathInt :: "nat \<Rightarrow> string \<Rightarrow> int" where
  "mathInt R Z =
     foldl (\<lambda>acc c. acc * int R + int (case digitValue c of None \<Rightarrow> 0 | Some d \<Rightarrow> d)) 0 Z"

text \<open>
  The steps of the language definition: strip leading white space, read a sign, switch to
  radix 16 after a \<open>0x\<close> or \<open>0X\<close> prefix, keep the longest run of digits of the radix; no
  digit gives \<open>NaN\<close>, whatever follows the digits is ignored, and the result is the number
  value of the signed integer. Every digit counts, which the language definition demands
  for the first 20 significant digits and allows for the rest.
\<close>

definition parseInt :: "string \<Rightarrow> number" where
  "parseInt inputString =
     (let S = dropWhile isWhiteSpace inputString;
          sign = (if S \<noteq> [] \<and> hd S = CHR ''-'' then - 1 else 1 :: int);
          S = (if S \<noteq> [] \<and> (hd S = CHR ''+'' \<or> hd S = CHR ''-'') then tl S else S);
          hex = (2 \<le> length S \<and> (take 2 S = ''0x'' \<or> take 2 S = ''0X''));
          R = (if hex then 16 else 10 :: nat);
          S = (if hex then drop 2 S else S);
          Z = takeWhile (isRadixDigit R) S
      in if Z = [] then NaN else toNumber (sign * mathInt R Z))"

subsection \<open>What a form control hands over\<close>

definition isDigit :: "char \<Rightarrow> bool" where
  "isDigit c = (48 \<le> (of_char c :: nat) \<and> (of_char c :: nat) \<le> 57)"

text \<open>
  The end of a number text after its digits and fraction: nothing, which is the exponent
  0, or \<open>e\<close> or \<open>E\<close>, an optional sign and one or more digits.
\<close>

definition exponent_part :: "string \<Rightarrow> int option" where
  "exponent_part r =
     (if r = [] then Some 0
      else if hd r = CHR ''e'' \<or> hd r = CHR ''E'' then
        (let r' = tl r;
             neg = (r' \<noteq> [] \<and> hd r' = CHR ''-'');
             ds = (if r' \<noteq> [] \<and> (hd r' = CHR ''-'' \<or> hd r' = CHR ''+'') then tl r' else r')
         in if ds \<noteq> [] \<and> list_all isDigit ds
            then Some ((if neg then - 1 else 1) * mathInt 10 ds) else None)
      else None)"

text \<open>After the integer digits: no fraction, or a point and one or more digits.\<close>

definition fraction_part :: "string \<Rightarrow> (string \<times> string) option" where
  "fraction_part r =
     (if r \<noteq> [] \<and> hd r = CHR ''.'' then
        (let fp = takeWhile isDigit (tl r)
         in if fp = [] then None else Some (fp, dropWhile isDigit (tl r)))
      else Some ([], r))"

text \<open>
  The number that a text enters into an \<open>input\<close> of type \<open>number\<close>, as the pair \<open>(m, e)\<close>
  for \<open>m \<times> 10 ^ e\<close>: the text has to be a valid floating-point number of the HTML
  standard, which is an optional minus sign, digits or a point and digits or both, and
  an optional exponent. Any other text enters no number.
\<close>

definition entered :: "string \<Rightarrow> (int \<times> int) option" where
  "entered t =
     (let neg = (t \<noteq> [] \<and> hd t = CHR ''-'');
          u = (if neg then tl t else t);
          ip = takeWhile isDigit u
      in case fraction_part (dropWhile isDigit u) of
           None \<Rightarrow> None
         | Some (fp, r) \<Rightarrow>
             if ip = [] \<and> fp = [] then None
             else (case exponent_part r of
                     None \<Rightarrow> None
                   | Some ex \<Rightarrow>
                       Some ((if neg then - 1 else 1) * mathInt 10 (ip @ fp),
                             ex - int (length fp))))"

text \<open>
  \<open>e.target.value\<close> of an \<open>input\<close> of type \<open>number\<close> whose text is \<open>t\<close>: the browser hands
  over the text when it is a valid floating-point number and the empty string otherwise.
\<close>

definition number_input :: "string \<Rightarrow> string" where
  "number_input t = (if entered t = None then [] else t)"

text \<open>The values of the options of the two \<open>select\<close> controls of the search form.\<close>

definition type_options :: "string list" where
  "type_options = ['''', ''House'', ''Flat'', ''Apartment'', ''Bungalow'']"

definition bedrooms_options :: "string list" where
  "bedrooms_options = ['''', ''1'', ''2'', ''3'', ''4'', ''5'']"

section \<open>Data model\<close>

text \<open>Identifiers come from the JSON catalog: a number or a string, compared with \<open>===\<close>.\<close>

datatype ident = IdNum int | IdStr string

record added_date =
  year :: int
  month :: string
  day :: int

text \<open>
  A property of the catalog; \<open>prop_id\<close> and \<open>prop_type\<close> are its fields \<open>id\<close> and
  \<open>type\<close>. \<open>images\<close> and \<open>floorPlan\<close> may be missing from the JSON object, which is
  \<open>None\<close>; a present \<open>images\<close> array may be empty.
\<close>

record property =
  prop_id :: ident
  prop_type :: string
  price :: int
  bedrooms :: int
  tenure :: string
  location :: string
  description :: string
  longDescription :: string
  images :: "string list option"
  floorPlan :: "string option"
  added :: added_date

text \<open>
  The search form's fields \<open>type\<close>, \<open>minPrice\<close>, \<open>maxPrice\<close>, \<open>bedrooms\<close> and \<open>location\<close>,
  all strings, empty when nothing is entered.
\<close>

record filter_fields =
  type_filter :: string
  minPrice :: string
  maxPrice :: string
  bedrooms_filter :: string
  location_filter :: string

text \<open>
  The entry \<open>propertyFavourites\<close> of the browser's local storage: missing (or the empty
  string, which the code skips as falsy), a text that \<open>JSON.parse\<close> rejects, the JSON of
  a list of properties, or the JSON of a value that is no list (\<open>null\<close>, a number, a string,
  an object). Writing a value to the entry and parsing it back gives the value written.
  Lists with entries that are no property objects stay outside the model.
\<close>

datatype storage_item = Absent | Unparsable | Snapshot "property list" | NotAList

text \<open>The state variables of \<open>PropertySearchApp\<close>, and the storage entry beside them.\<close>

record app_state =
  properties :: "property list"
  filteredProperties :: "property list"
  favourites :: "property list"
  selectedProperty :: "property option"
  draggedProperty :: "property option"
  loading :: bool
  error :: "string option"
  filters :: filter_fields
  localStorage :: storage_item

section \<open>State updates\<close>

text \<open>
  A handler reads the state variables of the render it was created in and calls setters;
  the calls are queued and take effect, in order, when the handler and every other handler
  of the same event have returned. A handler is therefore a function from the rendered
  state to the list of setter calls it makes.
\<close>

datatype update =
    SetProperties "property list"
  | SetFilteredProperties "property list"
  | SetFavourites "property list"
  | SetSelectedProperty "property option"
  | SetDraggedProperty "property option"
  | SetLoading bool
  | SetError "string option"
  | SetFilters filter_fields

text \<open>
  Every list handed to \<open>setFavourites\<close> is a fresh array, so the effect that depends on
  \<open>favourites\<close> runs after the render and writes the list to the storage entry.
\<close>

fun apply_update :: "app_state \<Rightarrow> update \<Rightarrow> app_state" where
  "apply_update s (SetProperties ps) = s\<lparr>properties := ps\<rparr>"
| "apply_update s (SetFilteredProperties ps) = s\<lparr>filteredProperties := ps\<rparr>"
| "apply_update s (SetFavourites fs) = s\<lparr>favourites := fs, localStorage := Snapshot fs\<rparr>"
| "apply_update s (SetSelectedProperty p) = s\<lparr>selectedProperty := p\<rparr>"
| "apply_update s (SetDraggedProperty p) = s\<lparr>draggedProperty := p\<rparr>"
| "apply_update s (SetLoading b) = s\<lparr>loading := b\<rparr>"
| "apply_update s (SetError e) = s\<lparr>error := e\<rparr>"
| "apply_update s (SetFilters f) = s\<lparr>filters := f\<rparr>"

definition run :: "app_state \<Rightarrow> update list \<Rightarrow> app_state" where
  "run s us = foldl apply_update s us"

text \<open>The state of the next render when handler \<open>h\<close> alone has run on the state \<open>s\<close>.\<close>

definition after :: "(app_state \<Rightarrow> update list) \<Rightarrow> app_state \<Rightarrow> app_state" where
  "after h s = run s (h s)"

section \<open>Search\<close>

text \<open>
  The body of \<open>handleSearch\<close>: the catalog is copied and narrowed by one \<open>filter\<close> call for
  each field that is truthy, in the order type, minPrice, maxPrice, bedrooms, location.
\<close>

definition results :: "property list \<Rightarrow> filter_fields \<Rightarrow> property list" where
  "results ps f =
     (let results = ps;
          results = (if truthy (type_filter f)
                     then filter (\<lambda>p. toLowerCase (prop_type p) = toLowerCase (type_filter f)) results
                     else results);
          results = (if truthy (minPrice f)
                     then filter (\<lambda>p. ge (price p) (parseInt (minPrice f))) results
                     else results);
          results = (if truthy (maxPrice f)
                     then filter (\<lambda>p. le (price p) (parseInt (maxPrice f))) results
                     else results);
          results = (if truthy (bedrooms_filter f)
                     then filter (\<lambda>p. ge (bedrooms p) (parseInt (bedrooms_filter f))) results
                     else results);
          results = (if truthy (location_filter f)
                     then filter (\<lambda>p. includes_str (toLowerCase (location p))
                                                     (toLowerCase (location_filter f))) results
                     else results)
      in results)"

definition handleSearch :: "app_state \<Rightarrow> update list" where
  "handleSearch s = [SetFilteredProperties (results (properties s) (filters s))]"

definition handleReset :: "app_state \<Rightarrow> update list" where
  "handleReset s =
     [SetFilters \<lparr>type_filter = [], minPrice = [], maxPrice = [], bedrooms_filter = [],
                  location_filter = []\<rparr>,
      SetFilteredProperties (properties s)]"

section \<open>Favourites\<close>

definition addToFavourites :: "property \<Rightarrow> app_state \<Rightarrow> update list" where
  "addToFavourites p s =
     (if find (\<lambda>f. prop_id f = prop_id p) (favourites s) = None
      then [SetFavourites (favourites s @ [p])] else [])"

definition removeFromFavourites :: "ident \<Rightarrow> app_state \<Rightarrow> update list" where
  "removeFromFavourites i s = [SetFavourites (filter (\<lambda>f. prop_id f \<noteq> i) (favourites s))]"

text \<open>The argument is the answer to \<open>window.confirm\<close>.\<close>

definition clearFavourites :: "bool \<Rightarrow> app_state \<Rightarrow> update list" where
  "clearFavourites confirmed s = (if confirmed then [SetFavourites []] else [])"

definition handleDragStart :: "property \<Rightarrow> app_state \<Rightarrow> update list" where
  "handleDragStart p s = [SetDraggedProperty (Some p)]"

definition handleDropOnFavourites :: "app_state \<Rightarrow> update list" where
  "handleDropOnFavourites s =
     (case draggedProperty s of
        Some d \<Rightarrow> if find (\<lambda>f. prop_id f = prop_id d) (favourites s) = None
                  then [SetFavourites (favourites s @ [d])] else []
      | None \<Rightarrow> [])
     @ [SetDraggedProperty None]"

definition handleDropRemove :: "app_state \<Rightarrow> update list" where
  "handleDropRemove s =
     (case draggedProperty s of
        Some d \<Rightarrow> removeFromFavourites (prop_id d) s
      | None \<Rightarrow> [])
     @ [SetDraggedProperty None]"

text \<open>The \<open>onToggleFavourite\<close> callback handed to a card and to the detail page.\<close>

definition onToggleFavourite :: "property \<Rightarrow> app_state \<Rightarrow> update list" where
  "onToggleFavourite p s =
     (if list_ex (\<lambda>f. prop_id f = prop_id p) (favourites s)
      then removeFromFavourites (prop_id p) s
      else addToFavourites p s)"

section \<open>Start-up and events\<close>

definition initial :: "storage_item \<Rightarrow> app_state" where
  "initial st =
     \<lparr>properties = [], filteredProperties = [], favourites = [], selectedProperty = None,
      draggedProperty = None, loading = True, error = None,
      filters = \<lparr>type_filter = [], minPrice = [], maxPrice = [], bedrooms_filter = [],
                 location_filter = []\<rparr>,
      localStorage = st\<rparr>"

text \<open>
  The first render and its saving effect, which writes the empty list of that render to
  the storage entry.
\<close>

definition first_render :: "storage_item \<Rightarrow> app_state" where
  "first_render st = (initial st)\<lparr>localStorage := Snapshot []\<rparr>"

text \<open>
  The start of the page with the storage entry \<open>st\<close>. The loading effect of the first
  render reads the entry before the saving effect overwrites it: a missing entry is
  skipped, a parse error is caught and logged, and whatever else \<open>JSON.parse\<close> returns is
  handed to \<open>setFavourites\<close>. With a value that is no list there is no state of the model:
  \<open>favourites\<close> holds that value, the saving effect writes it back, the page shows the
  spinner or the error box at most, and the render of the main page throws on
  \<open>favourites.map\<close> or \<open>favourites.length\<close>. That is \<open>None\<close>.
\<close>

definition mount :: "storage_item \<Rightarrow> app_state option" where
  "mount st =
     (case st of
        Absent \<Rightarrow> Some (first_render st)
      | Unparsable \<Rightarrow> Some (first_render st)
      | Snapshot fs \<Rightarrow> Some (run (first_render st) [SetFavourites fs])
      | NotAList \<Rightarrow> None)"

text \<open>
  What the user and the browser can do on the page. The four \<open>Change\<close> events of the
  number inputs and the selects carry the text of the control; \<open>DropOnRemoveZone\<close> is a
  drop on the removal region, which lies inside the favourites card; \<open>DropElsewhere\<close> is
  the end of a drag anywhere else.
\<close>

datatype event =
    Fetched "property list"
  | FetchFailed
  | ChangeType string
  | ChangeMinPrice string
  | ChangeMaxPrice string
  | ChangeBedrooms string
  | ChangeLocation string
  | SubmitSearch
  | ClickReset
  | ClickSelect property
  | ClickBack
  | ClickHeart property
  | ClickDetailHeart
  | ClickRemove ident
  | ClickClearAll bool
  | DragStart property
  | DropOnFavouritesCard
  | DropOnRemoveZone
  | DropElsewhere

text \<open>
  The setter calls of an event. A number input hands over \<open>number_input\<close> of its text, and
  a select the value of one of its options, so that a change to any other value is no
  event. A drop on the removal region runs \<open>handleDropRemove\<close> and then, as the event
  bubbles to the enclosing favourites card, \<open>handleDropOnFavourites\<close>, both on the same
  rendered state. No element has a handler for the end of a drag, and no other element
  has one for a drop.
\<close>

fun handlers :: "event \<Rightarrow> app_state \<Rightarrow> update list" where
  "handlers (Fetched ps) s = [SetProperties ps, SetFilteredProperties ps, SetLoading False]"
| "handlers FetchFailed s =
     [SetError (Some ''Failed to load properties. Please ensure properties.json exists in the public folder.''),
      SetLoading False]"
| "handlers (ChangeType v) s =
     (if v \<in> set type_options then [SetFilters ((filters s)\<lparr>type_filter := v\<rparr>)] else [])"
| "handlers (ChangeMinPrice t) s = [SetFilters ((filters s)\<lparr>minPrice := number_input t\<rparr>)]"
| "handlers (ChangeMaxPrice t) s = [SetFilters ((filters s)\<lparr>maxPrice := number_input t\<rparr>)]"
| "handlers (ChangeBedrooms v) s =
     (if v \<in> set bedrooms_options then [SetFilters ((filters s)\<lparr>bedrooms_filter := v\<rparr>)]
      else [])"
| "handlers (ChangeLocation v) s = [SetFilters ((filters s)\<lparr>location_filter := v\<rparr>)]"
| "handlers SubmitSearch s = handleSearch s"
| "handlers ClickReset s = handleReset s"
| "handlers (ClickSelect p) s = [SetSelectedProperty (Some p)]"
| "handlers ClickBack s = [SetSelectedProperty None]"
| "handlers (ClickHeart p) s = onToggleFavourite p s"
| "handlers ClickDetailHeart s =
     (case selectedProperty s of Some p \<Rightarrow> onToggleFavourite p s | None \<Rightarrow> [])"
| "handlers (ClickRemove i) s = removeFromFavourites i s"
| "handlers (ClickClearAll confirmed) s = clearFavourites confirmed s"
| "handlers (DragStart p) s = handleDragStart p s"
| "handlers DropOnFavouritesCard s = handleDropOnFavourites s"
| "handlers DropOnRemoveZone s = handleDropRemove s @ handleDropOnFavourites s"
| "handlers DropElsewhere s = []"

definition step :: "app_state \<Rightarrow> event \<Rightarrow> app_state" where
  "step s e = after (handlers e) s"

text \<open>
  The states the application reaches when it starts with the storage entry \<open>st\<close>: by the
  start of the page, by an event, and by a reload of the page (the retry button or the
  browser), which starts the page with the storage entry of the moment.
\<close>

inductive reachable :: "storage_item \<Rightarrow> app_state \<Rightarrow> bool" for st :: storage_item where
  start: "mount st = Some s \<Longrightarrow> reachable st s"
| next_event: "reachable st s \<Longrightarrow> reachable st (step s e)"
| reload: "reachable st s \<Longrightarrow> mount (localStorage s) = Some s' \<Longrightarrow> reachable st s'"

section \<open>Detail page\<close>

datatype tab = Description | Floorplan | Map_tab

record detail_state =
  currentImageIndex :: number
  activeTab :: tab

text \<open>
  Addition and remainder of numbers: the remainder has the sign of the dividend. The sum
  of two integers is exact, as it is for the indices of a gallery, which stay far below
  \<open>2 ^ 53\<close>.
\<close>

fun plus_num :: "number \<Rightarrow> number \<Rightarrow> number" where
  "plus_num (Num a) (Num b) = Num (a + b)"
| "plus_num NaN _ = NaN"
| "plus_num _ NaN = NaN"
| "plus_num PosInfinity NegInfinity = NaN"
| "plus_num NegInfinity PosInfinity = NaN"
| "plus_num PosInfinity _ = PosInfinity"
| "plus_num _ PosInfinity = PosInfinity"
| "plus_num NegInfinity _ = NegInfinity"
| "plus_num _ NegInfinity = NegInfinity"

fun rem_num :: "number \<Rightarrow> number \<Rightarrow> number" where
  "rem_num (Num a) (Num b) = (if b = 0 then NaN else Num (sgn a * (\<bar>a\<bar> mod \<bar>b\<bar>)))"
| "rem_num (Num a) PosInfinity = Num a"
| "rem_num (Num a) NegInfinity = Num a"
| "rem_num _ _ = NaN"

text \<open>\<open>xs[i]\<close>: \<open>None\<close> is \<open>undefined\<close>.\<close>

fun at_index :: "'a list \<Rightarrow> number \<Rightarrow> 'a option" where
  "at_index xs (Num i) = (if 0 \<le> i \<and> i < int (length xs) then Some (xs ! nat i) else None)"
| "at_index xs _ = None"

text \<open>
  \<open>property.images || ['/images/default.jpg']\<close> in \<open>PropertyDetail\<close>: every array is truthy,
  the empty one too, so the default is taken only when the field is missing.
\<close>

definition detail_images :: "property \<Rightarrow> string list" where
  "detail_images p = (case images p of None \<Rightarrow> [''/images/default.jpg''] | Some xs \<Rightarrow> xs)"

definition detail_start :: detail_state where
  "detail_start = \<lparr>currentImageIndex = Num 0, activeTab = Description\<rparr>"

definition nextImage :: "property \<Rightarrow> detail_state \<Rightarrow> detail_state" where
  "nextImage p d =
     d\<lparr>currentImageIndex :=
         rem_num (plus_num (currentImageIndex d) (Num 1)) (Num (int (length (detail_images p))))\<rparr>"

definition prevImage :: "property \<Rightarrow> detail_state \<Rightarrow> detail_state" where
  "prevImage p d =
     d\<lparr>currentImageIndex :=
         rem_num (plus_num (plus_num (currentImageIndex d) (Num (- 1)))
                           (Num (int (length (detail_images p)))))
                 (Num (int (length (detail_images p))))\<rparr>"

text \<open>The \<open>src\<close> of the gallery's main image, \<open>images[currentImageIndex]\<close>.\<close>

definition gallery_src :: "property \<Rightarrow> detail_state \<Rightarrow> string option" where
  "gallery_src p d = at_index (detail_images p) (currentImageIndex d)"

text \<open>The previous and next buttons are rendered when \<open>images.length > 1\<close>.\<close>

definition gallery_buttons :: "property \<Rightarrow> bool" where
  "gallery_buttons p = (1 < length (detail_images p))"

text \<open>
  \<open>property.images?.[0] || '/images/default.jpg'\<close> in \<open>PropertyCard\<close>: the default is taken
  when the field is missing, when the array is empty and when its first entry is empty.
\<close>

definition card_imageUrl :: "property \<Rightarrow> string" where
  "card_imageUrl p =
     (case images p of
        None \<Rightarrow> ''/images/default.jpg''
      | Some [] \<Rightarrow> ''/images/default.jpg''
      | Some (x # _) \<Rightarrow> if truthy x then x else ''/images/default.jpg'')"

section \<open>What the specification says, in the model's terms\<close>

text \<open>An entered number \<open>m \<times> 10 ^ e\<close> as an inclusive lower and upper bound of an integer.\<close>

fun bound_le :: "int \<times> int \<Rightarrow> int \<Rightarrow> bool" where
  "bound_le (m, e) p = (if 0 \<le> e then m * 10 ^ nat e \<le> p else m \<le> p * 10 ^ nat (- e))"

fun le_bound :: "int \<Rightarrow> int \<times> int \<Rightarrow> bool" where
  "le_bound p (m, e) = (if 0 \<le> e then p \<le> m * 10 ^ nat e else p * 10 ^ nat (- e) \<le> m)"

text \<open>
  The conjunction of the active predicates of the specification's filter engine: type
  equality and location containment without regard to case, the entered minimum and
  maximum price as inclusive bounds, and the entered bedrooms as a minimum; a field that
  is empty or enters no number constrains nothing.
\<close>

definition satisfies :: "filter_fields \<Rightarrow> property \<Rightarrow> bool" where
  "satisfies f p =
     ((type_filter f = [] \<or> toLowerCase (prop_type p) = toLowerCase (type_filter f)) \<and>
      (case entered (minPrice f) of None \<Rightarrow> True | Some b \<Rightarrow> bound_le b (price p)) \<and>
      (case entered (maxPrice f) of None \<Rightarrow> True | Some b \<Rightarrow> le_bound (price p) b) \<and>
      (case entered (bedrooms_filter f) of None \<Rightarrow> True | Some b \<Rightarrow> bound_le b (bedrooms p)) \<and>
      (location_filter f = [] \<or>
       includes_str (toLowerCase (location p)) (toLowerCase (location_filter f))))"

text \<open>
  A plain decimal integer: an optional minus sign and one or more digits, with no
  fraction and no exponent.
\<close>

definition digits_of :: "string \<Rightarrow> string" where
  "digits_of t = (if t \<noteq> [] \<and> hd t = CHR ''-'' then tl t else t)"

definition plain_integer :: "string \<Rightarrow> bool" where
  "plain_integer t = (digits_of t \<noteq> [] \<and> list_all isDigit (digits_of t))"

definition plain_value :: "string \<Rightarrow> int" where
  "plain_value t =
     (if t \<noteq> [] \<and> hd t = CHR ''-'' then - mathInt 10 (digits_of t) else mathInt 10 (digits_of t))"

text \<open>
  A numeric field of the form that is empty or holds a plain decimal integer of magnitude
  \<open>2 ^ 53\<close> at most.
\<close>

definition plain_field :: "string \<Rightarrow> bool" where
  "plain_field t = (t = [] \<or> (plain_integer t \<and> \<bar>plain_value t\<bar> \<le> 2 ^ 53))"

text \<open>
  Filter fields as the form's controls hand them over: a number input gives the empty
  string or a valid floating-point number, and the bedrooms select one of its options.
\<close>

definition receivable :: "filter_fields \<Rightarrow> bool" where
  "receivable f =
     ((minPrice f = [] \<or> entered (minPrice f) \<noteq> None) \<and>
      (maxPrice f = [] \<or> entered (maxPrice f) \<noteq> None) \<and>
      bedrooms_filter f \<in> set bedrooms_options)"

definition unique_ids :: "property list \<Rightarrow> bool" where
  "unique_ids fs = distinct (map prop_id fs)"

text \<open>A storage entry that holds no list with a repeated identifier.\<close>

definition storage_ok :: "storage_item \<Rightarrow> bool" where
  "storage_ok st = (case st of Snapshot fs \<Rightarrow> unique_ids fs | _ \<Rightarrow> True)"

text \<open>The \<open>isFavourite\<close> flag handed to a card and to the detail page.\<close>

definition isFavourite :: "property \<Rightarrow> app_state \<Rightarrow> bool" where
  "isFavourite p s = list_ex (\<lambda>f. prop_id f = prop_id p) (favourites s)"

subsection \<open>Example data\<close>

definition sample ::
  "int \<Rightarrow> string \<Rightarrow> int \<Rightarrow> int \<Rightarrow> string \<Rightarrow> string list option \<Rightarrow> property" where
  "sample i t pr b loc imgs =
     \<lparr>prop_id = IdNum i, prop_type = t, price = pr, bedrooms = b, tenure = ''Freehold'',
      location = loc, description = [], longDescription = [], images = imgs,
      floorPlan = None, added = \<lparr>year = 2024, month = ''January'', day = 1\<rparr>\<rparr>"

definition house1 :: property where
  "house1 = sample 1 ''House'' 100000 2 ''Petts Wood Road, Orpington BR5''
              (Some [''/images/a1.jpg'', ''/images/a2.jpg'', ''/images/a3.jpg''])"

definition flat2 :: property where
  "flat2 = sample 2 ''Flat'' 250000 3 ''Crofton Road, Orpington BR6'' None"

definition house3 :: property where
  "house3 = sample 3 ''House'' 400000 4 ''Bromley BR1'' (Some [])"

text \<open>A property whose price is \<open>2 ^ 53\<close>.\<close>

definition estate4 :: property where
  "estate4 = sample 4 ''House'' 9007199254740992 9 ''Kensington W8'' None"

definition catalog :: "property list" where
  "catalog = [house1, flat2, house3]"

text \<open>A fresh browser after the catalog has arrived.\<close>

definition loaded :: app_state where
  "loaded = step (first_render Absent) (Fetched catalog)"

text \<open>The form after \<open>150000\<close> has been typed into the minimum price.\<close>

definition searching :: app_state where
  "searching = step loaded (ChangeMinPrice ''150000'')"

text \<open>The form after \<open>2e5\<close>, which is 200000, has been typed into the minimum price.\<close>

definition exponent :: app_state where
  "exponent = step loaded (ChangeMinPrice ''2e5'')"

text \<open>
  A catalog of the one property priced \<open>2 ^ 53\<close>, and \<open>2 ^ 53 + 1\<close> typed into the minimum
  price.
\<close>

definition beyond :: app_state where
  "beyond = step (step (first_render Absent) (Fetched [estate4]))
                 (ChangeMinPrice ''9007199254740993'')"

text \<open>A drag of the second property, started from its card.\<close>

definition dragging :: app_state where
  "dragging = step loaded (DragStart flat2)"

text \<open>The first property is a favourite and the second is being dragged.\<close>

definition holding :: app_state where
  "holding = step (step loaded (ClickHeart house1)) (DragStart flat2)"

text \<open>
  The start of the page with a stored list that repeats an identifier, as a damaged
  snapshot could hold.
\<close>

definition repeated :: app_state where
  "repeated =
     run (first_render (Snapshot [house1, flat2, house1])) [SetFavourites [house1, flat2, house1]]"

section \<open>Properties of the search\<close>

subsection \<open>Plain decimal integers are read as entered\<close>

declare bitlen.simps [simp del]

lemma bitlen_less: "a < 2 ^ n \<Longrightarrow> bitlen a \<le> n"
proof (induction n arbitrary: a)
  case 0
  then have "a \<le> 0" by simp
  then show ?case by (subst bitlen.simps) simp
next
  case (Suc n)
  show ?case
  proof (cases "a \<le> 0")
    case True
    then show ?thesis by (subst bitlen.simps) simp
  next
    case False
    have "a div 2 < 2 ^ n" using Suc.prems by simp
    then have "bitlen (a div 2) \<le> n" by (rule Suc.IH)
    with False show ?thesis by (subst bitlen.simps) simp
  qed
qed

lemma bitlen_2_53: "bitlen (2 ^ 53) = 54"
  by code_simp

lemma toNumber_exact:
  assumes "\<bar>k\<bar> \<le> 2 ^ 53"
  shows "toNumber k = Num k"
proof (cases "\<bar>k\<bar> = 2 ^ 53")
  case True
  have big: "\<not> (2::int) ^ 1024 \<le> 2 ^ 53" by simp
  have "toNumber k = Num (sgn k * \<bar>k\<bar>)"
    unfolding toNumber_def Let_def True bitlen_2_53 using big by simp
  then show ?thesis by (simp add: mult_sgn_abs)
next
  case False
  with assms have lt: "\<bar>k\<bar> < 2 ^ 53" by simp
  then have b: "bitlen \<bar>k\<bar> \<le> 53" by (rule bitlen_less)
  have "\<bar>k\<bar> < 2 ^ 1024" using lt by (rule less_trans) simp
  then have "toNumber k = Num (sgn k * \<bar>k\<bar>)"
    unfolding toNumber_def Let_def using b by simp
  then show ?thesis by (simp add: mult_sgn_abs)
qed

lemma digit_is_radix: "isDigit c \<Longrightarrow> isRadixDigit 10 c"
  by (auto simp: isDigit_def isRadixDigit_def digitValue_def)

lemma digit_not_space: "isDigit c \<Longrightarrow> \<not> isWhiteSpace c"
  by (auto simp: isDigit_def isWhiteSpace_def)

lemma digit_not_mark:
  "isDigit c \<Longrightarrow> c \<noteq> CHR ''+'' \<and> c \<noteq> CHR ''-'' \<and> c \<noteq> CHR ''x'' \<and> c \<noteq> CHR ''X'' \<and> c \<noteq> CHR ''.''"
  by (auto simp: isDigit_def)

lemma takeWhile_radix: "list_all isDigit ds \<Longrightarrow> takeWhile (isRadixDigit 10) ds = ds"
  by (auto simp: takeWhile_eq_all_conv list_all_iff digit_is_radix)

lemma takeWhile_digits: "list_all isDigit ds \<Longrightarrow> takeWhile isDigit ds = ds"
  by (auto simp: takeWhile_eq_all_conv list_all_iff)

lemma dropWhile_digits: "list_all isDigit ds \<Longrightarrow> dropWhile isDigit ds = []"
  by (auto simp: list_all_iff)

lemma second_char:
  assumes "take 2 S = [a, b]"
  shows "b \<in> set S"
proof -
  have "b \<in> set (take 2 S)" by (simp only: assms) simp
  then show ?thesis by (rule in_set_takeD)
qed

lemma digits_not_hex:
  assumes "list_all isDigit ds"
  shows "(2 \<le> length ds \<and> (take 2 ds = ''0x'' \<or> take 2 ds = ''0X'')) = False"
proof -
  have "CHR ''x'' \<notin> set ds" "CHR ''X'' \<notin> set ds"
    using assms digit_not_mark by (auto simp: list_all_iff)
  then show ?thesis
    using second_char[of ds "CHR ''0''" "CHR ''x''"] second_char[of ds "CHR ''0''" "CHR ''X''"]
    by blast
qed

lemma hd_digit: "ds \<noteq> [] \<Longrightarrow> list_all isDigit ds \<Longrightarrow> isDigit (hd ds)"
  by (cases ds) simp_all

lemma parseInt_digits:
  assumes "ds \<noteq> []" "list_all isDigit ds"
  shows "parseInt ds = toNumber (mathInt 10 ds)"
proof -
  have h: "isDigit (hd ds)" using assms by (rule hd_digit)
  have ws: "dropWhile isWhiteSpace ds = ds"
    using assms(1) h digit_not_space by (cases ds) simp_all
  have c1: "(ds \<noteq> [] \<and> hd ds = CHR ''-'') = False"
    using h digit_not_mark by blast
  have c2: "(ds \<noteq> [] \<and> (hd ds = CHR ''+'' \<or> hd ds = CHR ''-'')) = False"
    using h digit_not_mark by blast
  have "parseInt ds = (if ds = [] then NaN else toNumber (1 * mathInt 10 ds))"
    by (simp only: parseInt_def Let_def ws c1 c2 if_False digits_not_hex[OF assms(2)]
        takeWhile_radix[OF assms(2)])
  then show ?thesis using assms(1) by simp
qed

lemma parseInt_minus_digits:
  assumes "ds \<noteq> []" "list_all isDigit ds"
  shows "parseInt (CHR ''-'' # ds) = toNumber (- mathInt 10 ds)"
proof -
  have "\<not> isWhiteSpace CHR ''-''" by (simp add: isWhiteSpace_def)
  then have ws: "dropWhile isWhiteSpace (CHR ''-'' # ds) = CHR ''-'' # ds" by simp
  have c1: "(CHR ''-'' # ds \<noteq> [] \<and> hd (CHR ''-'' # ds) = CHR ''-'') = True"
    by simp
  have c2: "(CHR ''-'' # ds \<noteq> [] \<and>
       (hd (CHR ''-'' # ds) = CHR ''+'' \<or> hd (CHR ''-'' # ds) = CHR ''-'')) = True"
    by simp
  have tl: "tl (CHR ''-'' # ds) = ds" by simp
  have "parseInt (CHR ''-'' # ds) = (if ds = [] then NaN else toNumber (- 1 * mathInt 10 ds))"
    by (simp only: parseInt_def Let_def ws c1 c2 if_True if_False tl digits_not_hex[OF assms(2)]
        takeWhile_radix[OF assms(2)])
  then show ?thesis using assms(1) by simp
qed

lemma entered_digits:
  assumes "ds \<noteq> []" "list_all isDigit ds"
  shows "entered ds = Some (mathInt 10 ds, 0)"
proof -
  have h: "isDigit (hd ds)" using assms by (rule hd_digit)
  have c: "hd ds \<noteq> CHR ''-''" using h digit_not_mark by blast
  have f: "fraction_part [] = Some ([], [])" by (simp add: fraction_part_def)
  have x: "exponent_part [] = Some 0" by (simp add: exponent_part_def)
  show ?thesis
    using assms(1)
    by (simp add: entered_def Let_def c takeWhile_digits[OF assms(2)]
        dropWhile_digits[OF assms(2)] f x)
qed

lemma entered_minus_digits:
  assumes "ds \<noteq> []" "list_all isDigit ds"
  shows "entered (CHR ''-'' # ds) = Some (- mathInt 10 ds, 0)"
proof -
  have f: "fraction_part [] = Some ([], [])" by (simp add: fraction_part_def)
  have x: "exponent_part [] = Some 0" by (simp add: exponent_part_def)
  show ?thesis
    using assms(1)
    by (simp add: entered_def Let_def takeWhile_digits[OF assms(2)]
        dropWhile_digits[OF assms(2)] f x)
qed

lemma plain_integer_reads:
  assumes "plain_integer t" "\<bar>plain_value t\<bar> \<le> 2 ^ 53"
  shows "parseInt t = Num (plain_value t)" and "entered t = Some (plain_value t, 0)"
proof -
  show "parseInt t = Num (plain_value t)"
  proof (cases "t \<noteq> [] \<and> hd t = CHR ''-''")
    case True
    then have t: "t = CHR ''-'' # digits_of t" by (cases t) (simp_all add: digits_of_def)
    from assms(1) have d: "digits_of t \<noteq> []" "list_all isDigit (digits_of t)"
      by (simp_all add: plain_integer_def)
    have v: "plain_value t = - mathInt 10 (digits_of t)" using True by (simp add: plain_value_def)
    have "parseInt (CHR ''-'' # digits_of t) = toNumber (- mathInt 10 (digits_of t))"
      using d by (rule parseInt_minus_digits)
    then have "parseInt t = toNumber (plain_value t)" using t v by simp
    then show ?thesis using assms(2) by (simp add: toNumber_exact)
  next
    case False
    then have t: "digits_of t = t" by (auto simp: digits_of_def)
    from assms(1) have d: "t \<noteq> []" "list_all isDigit t"
      by (simp_all add: plain_integer_def t)
    have v: "plain_value t = mathInt 10 t" using False t by (auto simp: plain_value_def)
    have "parseInt t = toNumber (mathInt 10 t)" using d by (rule parseInt_digits)
    then show ?thesis using assms(2) v by (simp add: toNumber_exact)
  qed
  show "entered t = Some (plain_value t, 0)"
  proof (cases "t \<noteq> [] \<and> hd t = CHR ''-''")
    case True
    then have t: "t = CHR ''-'' # digits_of t" by (cases t) (simp_all add: digits_of_def)
    from assms(1) have d: "digits_of t \<noteq> []" "list_all isDigit (digits_of t)"
      by (simp_all add: plain_integer_def)
    have v: "plain_value t = - mathInt 10 (digits_of t)" using True by (simp add: plain_value_def)
    have "entered (CHR ''-'' # digits_of t) = Some (- mathInt 10 (digits_of t), 0)"
      using d by (rule entered_minus_digits)
    then show ?thesis using t v by simp
  next
    case False
    then have t: "digits_of t = t" by (auto simp: digits_of_def)
    from assms(1) have d: "t \<noteq> []" "list_all isDigit t"
      by (simp_all add: plain_integer_def t)
    have v: "plain_value t = mathInt 10 t" using False t by (auto simp: plain_value_def)
    have "entered t = Some (mathInt 10 t, 0)" using d by (rule entered_digits)
    then show ?thesis using v by simp
  qed
qed

lemma entered_Nil: "entered [] = None"
  by (simp add: entered_def fraction_part_def)

lemma ge_field:
  assumes "plain_field v"
  shows "(v = [] \<or> ge a (parseInt v)) = (case entered v of None \<Rightarrow> True | Some b \<Rightarrow> bound_le b a)"
proof (cases "v = []")
  case True
  then show ?thesis by (simp add: entered_Nil)
next
  case False
  with assms have p: "plain_integer v" "\<bar>plain_value v\<bar> \<le> 2 ^ 53" by (simp_all add: plain_field_def)
  show ?thesis using False by (simp add: plain_integer_reads[OF p])
qed

lemma le_field:
  assumes "plain_field v"
  shows "(v = [] \<or> le a (parseInt v)) = (case entered v of None \<Rightarrow> True | Some b \<Rightarrow> le_bound a b)"
proof (cases "v = []")
  case True
  then show ?thesis by (simp add: entered_Nil)
next
  case False
  with assms have p: "plain_integer v" "\<bar>plain_value v\<bar> \<le> 2 ^ 53" by (simp_all add: plain_field_def)
  show ?thesis using False by (simp add: plain_integer_reads[OF p])
qed

subsection \<open>The search as one filter\<close>

lemma filteredProperties_handleSearch:
  "filteredProperties (after handleSearch s) = results (properties s) (filters s)"
  by (simp add: after_def run_def handleSearch_def)

lemma results_one_filter:
  "results ps f = filter (\<lambda>p.
      (type_filter f = [] \<or> toLowerCase (prop_type p) = toLowerCase (type_filter f)) \<and>
      (minPrice f = [] \<or> ge (price p) (parseInt (minPrice f))) \<and>
      (maxPrice f = [] \<or> le (price p) (parseInt (maxPrice f))) \<and>
      (bedrooms_filter f = [] \<or> ge (bedrooms p) (parseInt (bedrooms_filter f))) \<and>
      (location_filter f = [] \<or>
       includes_str (toLowerCase (location p)) (toLowerCase (location_filter f)))) ps"
  by (simp add: results_def truthy_def Let_def conj_commute conj_left_commute cong: conj_cong)

lemma results_satisfies:
  assumes "plain_field (minPrice f)" "plain_field (maxPrice f)" "plain_field (bedrooms_filter f)"
  shows "results ps f = filter (satisfies f) ps"
  unfolding results_one_filter
proof (rule filter_cong[OF refl])
  fix p :: property
  show "((type_filter f = [] \<or> toLowerCase (prop_type p) = toLowerCase (type_filter f)) \<and>
      (minPrice f = [] \<or> ge (price p) (parseInt (minPrice f))) \<and>
      (maxPrice f = [] \<or> le (price p) (parseInt (maxPrice f))) \<and>
      (bedrooms_filter f = [] \<or> ge (bedrooms p) (parseInt (bedrooms_filter f))) \<and>
      (location_filter f = [] \<or>
       includes_str (toLowerCase (location p)) (toLowerCase (location_filter f)))) = satisfies f p"
    unfolding satisfies_def ge_field[OF assms(1)] le_field[OF assms(2)] ge_field[OF assms(3)] ..
qed

lemma results_no_criteria:
  "type_filter f = [] \<Longrightarrow> minPrice f = [] \<Longrightarrow> maxPrice f = [] \<Longrightarrow>
   bedrooms_filter f = [] \<Longrightarrow> location_filter f = [] \<Longrightarrow> results ps f = ps"
  by (simp add: results_def truthy_def)

subsection \<open>What the form hands over\<close>

text \<open>
  No state the page reaches holds, in a numeric filter field, a non-empty text that is no
  number.
\<close>

lemma number_input_cases: "number_input t = [] \<or> entered (number_input t) \<noteq> None"
  by (simp add: number_input_def)

lemma receivable_after_handlers:
  assumes "receivable (filters s)"
  shows "receivable (filters (after (handlers e) s))"
proof (cases e)
  case (ChangeMinPrice t)
  then show ?thesis using assms number_input_cases[of t]
    by (auto simp: after_def run_def receivable_def)
next
  case (ChangeMaxPrice t)
  then show ?thesis using assms number_input_cases[of t]
    by (auto simp: after_def run_def receivable_def)
next
  case ClickReset
  then show ?thesis
    by (simp add: after_def run_def handleReset_def receivable_def bedrooms_options_def)
next
  case ClickDetailHeart
  then show ?thesis using assms
    by (cases "selectedProperty s")
       (auto simp: after_def run_def onToggleFavourite_def addToFavourites_def
          removeFromFavourites_def)
next
  case DropOnFavouritesCard
  then show ?thesis using assms
    by (cases "draggedProperty s") (auto simp: after_def run_def handleDropOnFavourites_def)
next
  case DropOnRemoveZone
  then show ?thesis using assms
    by (cases "draggedProperty s")
       (auto simp: after_def run_def handleDropOnFavourites_def handleDropRemove_def
          removeFromFavourites_def)
qed (use assms in \<open>auto simp: after_def run_def receivable_def handleSearch_def
       removeFromFavourites_def clearFavourites_def handleDragStart_def onToggleFavourite_def
       addToFavourites_def\<close>)

lemma receivable_mount: "mount st = Some s \<Longrightarrow> receivable (filters s)"
  by (cases st)
     (auto simp: mount_def run_def first_render_def initial_def receivable_def bedrooms_options_def)

lemma reachable_receivable: "reachable st s \<Longrightarrow> receivable (filters s)"
proof (induction rule: reachable.induct)
  case (start s)
  then show ?case by (rule receivable_mount)
next
  case (next_event s e)
  then show ?case by (simp add: step_def receivable_after_handlers)
next
  case (reload s s')
  then show ?case by (simp add: receivable_mount)
qed

lemma reachable_examples:
  "reachable Absent loaded" "reachable Absent exponent" "reachable Absent beyond"
proof -
  have "mount Absent = Some (first_render Absent)" by (simp add: mount_def)
  then have f: "reachable Absent (first_render Absent)" by (rule reachable.start)
  show "reachable Absent loaded" unfolding loaded_def using f by (rule reachable.next_event)
  then show "reachable Absent exponent" unfolding exponent_def by (rule reachable.next_event)
  show "reachable Absent beyond" unfolding beyond_def using f by (intro reachable.next_event)
qed

text \<open>
  C1, amended. For every catalog and all filter criteria whose minimum price, maximum
  price and bedrooms are each absent or entered as a plain decimal integer (an optional
  minus sign and digits, no fraction, no exponent) of magnitude \<open>2 ^ 53\<close> at most, the
  search puts into the filtered list exactly the properties of the catalog that satisfy
  the conjunction of the active predicates (type equality without regard to case, the
  entered minimum and maximum price as inclusive bounds, the entered bedrooms as a
  minimum, location containment without regard to case), in the catalog's order; with
  every field empty the filtered list is the whole catalog.
\<close>

theorem search_conjunctive_filter:
  assumes "plain_field (minPrice (filters s))"
    and "plain_field (maxPrice (filters s))"
    and "plain_field (bedrooms_filter (filters s))"
  shows "filteredProperties (after handleSearch s) = filter (satisfies (filters s)) (properties s) \<and>
         subseq (filteredProperties (after handleSearch s)) (properties s) \<and>
         (type_filter (filters s) = [] \<and> minPrice (filters s) = [] \<and> maxPrice (filters s) = [] \<and>
          bedrooms_filter (filters s) = [] \<and> location_filter (filters s) = [] \<longrightarrow>
          filteredProperties (after handleSearch s) = properties s)"
proof -
  have eq: "filteredProperties (after handleSearch s) = filter (satisfies (filters s)) (properties s)"
    by (simp only: filteredProperties_handleSearch results_satisfies[OF assms])
  have sub: "subseq (filteredProperties (after handleSearch s)) (properties s)"
    unfolding eq by (rule subseq_filter_left)
  have full: "type_filter (filters s) = [] \<and> minPrice (filters s) = [] \<and> maxPrice (filters s) = [] \<and>
          bedrooms_filter (filters s) = [] \<and> location_filter (filters s) = [] \<longrightarrow>
          filteredProperties (after handleSearch s) = properties s"
    by (simp add: filteredProperties_handleSearch results_no_criteria)
  from eq sub full show ?thesis by blast
qed

theorem search_conjunctive_filter_witness:
  "plain_field (minPrice (filters searching)) \<and>
   plain_field (maxPrice (filters searching)) \<and>
   plain_field (bedrooms_filter (filters searching)) \<and>
   minPrice (filters searching) = ''150000'' \<and>
   map price (properties searching) = [100000, 250000, 400000] \<and>
   filteredProperties (after handleSearch searching) = [flat2, house3]"
proof -
  have h1: "plain_field (minPrice (filters searching))" by code_simp
  have h2: "plain_field (maxPrice (filters searching))" by code_simp
  have h3: "plain_field (bedrooms_filter (filters searching))" by code_simp
  have m: "minPrice (filters searching) = ''150000''" by code_simp
  have c: "map price (properties searching) = [100000, 250000, 400000]" by code_simp
  have e: "filter (satisfies (filters searching)) (properties searching) = [flat2, house3]"
    by code_simp
  from search_conjunctive_filter[OF h1 h2 h3] e h1 h2 h3 c m show ?thesis by simp
qed

text \<open>
  C1, as the specification has it: for all filter criteria the search keeps exactly the
  properties within the entered bounds. It fails at two entries that the minimum price
  input hands over as they are. With \<open>2e5\<close>, which enters 200000, the code reads the
  bound 2 and keeps the property priced 100000. With \<open>9007199254740993\<close>, which is
  \<open>2 ^ 53 + 1\<close>, the code reads the double \<open>2 ^ 53\<close> and keeps the property priced
  \<open>2 ^ 53\<close>. Both states are reached by typing into the form.
\<close>

theorem search_entered_number_counterexample:
  "reachable Absent exponent \<and>
   minPrice (filters exponent) = ''2e5'' \<and>
   entered ''2e5'' = Some (2, 5) \<and>
   map price (properties exponent) = [100000, 250000, 400000] \<and>
   filteredProperties (after handleSearch exponent) = [house1, flat2, house3] \<and>
   filter (satisfies (filters exponent)) (properties exponent) = [flat2, house3] \<and>
   filteredProperties (after handleSearch exponent) \<noteq>
     filter (satisfies (filters exponent)) (properties exponent) \<and>
   reachable Absent beyond \<and>
   minPrice (filters beyond) = ''9007199254740993'' \<and>
   entered ''9007199254740993'' = Some (9007199254740993, 0) \<and>
   map price (properties beyond) = [9007199254740992] \<and>
   filteredProperties (after handleSearch beyond) = [estate4] \<and>
   filter (satisfies (filters beyond)) (properties beyond) = []"
proof -
  have "minPrice (filters exponent) = ''2e5'' \<and>
   entered ''2e5'' = Some (2, 5) \<and>
   map price (properties exponent) = [100000, 250000, 400000] \<and>
   filteredProperties (after handleSearch exponent) = [house1, flat2, house3] \<and>
   filter (satisfies (filters exponent)) (properties exponent) = [flat2, house3] \<and>
   filteredProperties (after handleSearch exponent) \<noteq>
     filter (satisfies (filters exponent)) (properties exponent) \<and>
   minPrice (filters beyond) = ''9007199254740993'' \<and>
   entered ''9007199254740993'' = Some (9007199254740993, 0) \<and>
   map price (properties beyond) = [9007199254740992] \<and>
   filteredProperties (after handleSearch beyond) = [estate4] \<and>
   filter (satisfies (filters beyond)) (properties beyond) = []"
    by code_simp
  with reachable_examples(2,3) show ?thesis by blast
qed




section \<open>Properties of the gallery\<close>

text \<open>
  C3. A property whose images array is empty: the detail page takes the empty array, not
  the default image, so the main image has no source, and \<open>nextImage\<close> would set the
  index to \<open>NaN\<close>; the buttons that call it are not rendered. The card of the same
  property shows the default image.
\<close>

theorem empty_images_gallery:
  "images house3 = Some [] \<and>
   detail_images house3 = [] \<and>
   gallery_src house3 detail_start = None \<and>
   currentImageIndex (nextImage house3 detail_start) = NaN \<and>
   currentImageIndex (prevImage house3 detail_start) = NaN \<and>
   \<not> gallery_buttons house3 \<and>
   card_imageUrl house3 = ''/images/default.jpg''"
  by code_simp

lemma rem_num_nonneg:
  "0 \<le> a \<Longrightarrow> 0 < n \<Longrightarrow> rem_num (Num a) (Num n) = Num (a mod n)"
  by (simp add: sgn_if)

lemma nextImage_index:
  assumes "currentImageIndex d = Num i" "0 \<le> i" "0 < int (length (detail_images p))"
  shows "nextImage p d = d\<lparr>currentImageIndex := Num ((i + 1) mod int (length (detail_images p)))\<rparr>"
  using assms by (simp add: nextImage_def rem_num_nonneg del: rem_num.simps)

lemma prevImage_index:
  assumes "currentImageIndex d = Num i" "0 \<le> i" "0 < int (length (detail_images p))"
  shows "prevImage p d =
     d\<lparr>currentImageIndex :=
         Num ((i - 1 + int (length (detail_images p))) mod int (length (detail_images p)))\<rparr>"
proof -
  let ?n = "int (length (detail_images p))"
  have "0 \<le> i - 1 + ?n" using assms(2,3) by linarith
  then have "rem_num (Num (i - 1 + ?n)) (Num ?n) = Num ((i - 1 + ?n) mod ?n)"
    using assms(3) by (rule rem_num_nonneg)
  then show ?thesis using assms(1) by (simp add: prevImage_def del: rem_num.simps)
qed

lemma nextImage_funpow:
  assumes "currentImageIndex d = Num i" "0 \<le> i" "0 < int (length (detail_images p))"
  shows "(nextImage p ^^ k) d =
     d\<lparr>currentImageIndex := Num ((i + int k) mod int (length (detail_images p)))\<rparr> \<or> k = 0"
proof (induction k)
  case 0
  show ?case by simp
next
  case (Suc k)
  let ?n = "int (length (detail_images p))"
  show ?case
  proof (cases "k = 0")
    case True
    then show ?thesis using nextImage_index[OF assms] by simp
  next
    case False
    with Suc have eq: "(nextImage p ^^ k) d = d\<lparr>currentImageIndex := Num ((i + int k) mod ?n)\<rparr>"
      by simp
    have "nextImage p (d\<lparr>currentImageIndex := Num ((i + int k) mod ?n)\<rparr>) =
        d\<lparr>currentImageIndex := Num (((i + int k) mod ?n + 1) mod ?n)\<rparr>"
      using nextImage_index[of "d\<lparr>currentImageIndex := Num ((i + int k) mod ?n)\<rparr>"
          "(i + int k) mod ?n" p] assms(3)
      by simp
    moreover have "((i + int k) mod ?n + 1) mod ?n = (i + int (Suc k)) mod ?n"
    proof -
      have "((i + int k) mod ?n + 1) mod ?n = (i + int k + 1) mod ?n"
        by (simp only: mod_add_left_eq)
      then show ?thesis by (simp add: ac_simps)
    qed
    ultimately show ?thesis using eq by simp
  qed
qed

text \<open>
  C8. For every property whose gallery has \<open>N \<ge> 1\<close> images and every index in
  \<open>0 \<dots> N - 1\<close>, \<open>N\<close> calls of \<open>nextImage\<close> lead back to the state they started from, and
  \<open>prevImage\<close> after \<open>nextImage\<close> does too.
\<close>

theorem gallery_cyclic:
  assumes "currentImageIndex d = Num i" and "0 \<le> i" and "i < int (length (detail_images p))"
  shows "(nextImage p ^^ length (detail_images p)) d = d \<and> prevImage p (nextImage p d) = d"
proof -
  let ?n = "int (length (detail_images p))"
  have n: "0 < ?n" using assms(2,3) by linarith
  then have "length (detail_images p) \<noteq> 0" by simp
  then have "(nextImage p ^^ length (detail_images p)) d =
      d\<lparr>currentImageIndex := Num ((i + ?n) mod ?n)\<rparr>"
    using nextImage_funpow[OF assms(1,2) n, of "length (detail_images p)"] by blast
  moreover have "(i + ?n) mod ?n = i" using assms(2,3) by simp
  ultimately have a: "(nextImage p ^^ length (detail_images p)) d = d"
    using assms(1) by simp
  have nx: "nextImage p d = d\<lparr>currentImageIndex := Num ((i + 1) mod ?n)\<rparr>"
    by (rule nextImage_index[OF assms(1,2) n])
  have "prevImage p (d\<lparr>currentImageIndex := Num ((i + 1) mod ?n)\<rparr>) =
      d\<lparr>currentImageIndex := Num (((i + 1) mod ?n - 1 + ?n) mod ?n)\<rparr>"
    using prevImage_index[of "d\<lparr>currentImageIndex := Num ((i + 1) mod ?n)\<rparr>" "(i + 1) mod ?n" p] n
    by simp
  moreover have "((i + 1) mod ?n - 1 + ?n) mod ?n = i"
  proof -
    have "((i + 1) mod ?n - 1 + ?n) mod ?n = ((i + 1) mod ?n - 1) mod ?n" by simp
    also have "\<dots> = (i + 1 - 1) mod ?n" by (simp only: mod_diff_left_eq)
    also have "\<dots> = i" using assms(2,3) by simp
    finally show ?thesis .
  qed
  ultimately have b: "prevImage p (nextImage p d) = d" using nx assms(1) by simp
  from a b show ?thesis ..
qed

theorem gallery_cyclic_witness:
  "currentImageIndex detail_start = Num 0 \<and> (0::int) \<le> 0 \<and>
   0 < int (length (detail_images house1)) \<and> length (detail_images house1) = 3 \<and>
   (nextImage house1 ^^ length (detail_images house1)) detail_start = detail_start \<and>
   prevImage house1 (nextImage house1 detail_start) = detail_start"
proof -
  have h1: "currentImageIndex detail_start = Num 0" by code_simp
  have h2: "(0::int) \<le> 0" by simp
  have h3: "0 < int (length (detail_images house1))" by code_simp
  have l: "length (detail_images house1) = 3" by code_simp
  from gallery_cyclic[OF h1 h2 h3] h1 h3 l show ?thesis by simp
qed

section \<open>Properties of the favourites\<close>

lemma find_None_ids: "(find (\<lambda>f. prop_id f = i) fs = None) = (i \<notin> prop_id ` set fs)"
  by (auto simp: find_None_iff)

lemma list_ex_ids: "list_ex (\<lambda>f. prop_id f = i) fs = (i \<in> prop_id ` set fs)"
  by (auto simp: list_ex_iff)

lemma after_addToFavourites:
  "after (addToFavourites p) s =
     (if prop_id p \<in> prop_id ` set (favourites s) then s
      else s\<lparr>favourites := favourites s @ [p], localStorage := Snapshot (favourites s @ [p])\<rparr>)"
  by (simp add: after_def run_def addToFavourites_def find_None_ids)

lemma after_removeFromFavourites:
  "after (removeFromFavourites i) s =
     s\<lparr>favourites := filter (\<lambda>f. prop_id f \<noteq> i) (favourites s),
       localStorage := Snapshot (filter (\<lambda>f. prop_id f \<noteq> i) (favourites s))\<rparr>"
  by (simp add: after_def run_def removeFromFavourites_def)

lemma after_onToggleFavourite:
  "after (onToggleFavourite p) s =
     (if prop_id p \<in> prop_id ` set (favourites s) then after (removeFromFavourites (prop_id p)) s
      else after (addToFavourites p) s)"
  by (simp add: after_def onToggleFavourite_def list_ex_ids)

text \<open>
  A drop on the removal region, with both handlers run: a dragged favourite is removed,
  and a dragged property that is no favourite is appended by the enclosing card's handler.
\<close>

lemma drop_on_remove_zone:
  "draggedProperty s = Some d \<Longrightarrow>
   favourites (step s DropOnRemoveZone) =
     (if prop_id d \<in> prop_id ` set (favourites s)
      then filter (\<lambda>f. prop_id f \<noteq> prop_id d) (favourites s)
      else favourites s @ [d])"
  by (simp add: step_def after_def run_def handleDropRemove_def handleDropOnFavourites_def
      removeFromFavourites_def find_None_ids)

lemma unique_ids_Nil: "unique_ids []"
  by (simp add: unique_ids_def)

lemma unique_ids_append:
  "unique_ids fs \<Longrightarrow> prop_id p \<notin> prop_id ` set fs \<Longrightarrow> unique_ids (fs @ [p])"
  by (simp add: unique_ids_def)

lemma unique_ids_filter: "unique_ids fs \<Longrightarrow> unique_ids (filter P fs)"
  by (simp add: unique_ids_def distinct_map_filter)

text \<open>
  What one event can do to the favourites: nothing, empty them, remove every entry of one
  identifier, or append a property whose identifier was not there.
\<close>

lemma favourites_after_handlers:
  "favourites (after (handlers e) s) = favourites s \<or>
   favourites (after (handlers e) s) = [] \<or>
   (\<exists>i. favourites (after (handlers e) s) = filter (\<lambda>f. prop_id f \<noteq> i) (favourites s)) \<or>
   (\<exists>p. prop_id p \<notin> prop_id ` set (favourites s) \<and>
        favourites (after (handlers e) s) = favourites s @ [p])"
proof (cases e)
  case (ClickHeart p)
  then show ?thesis
    by (auto simp: after_def run_def onToggleFavourite_def list_ex_ids addToFavourites_def
          removeFromFavourites_def find_None_ids)
next
  case ClickDetailHeart
  then show ?thesis
    by (cases "selectedProperty s")
       (auto simp: after_def run_def onToggleFavourite_def list_ex_ids addToFavourites_def
          removeFromFavourites_def find_None_ids)
next
  case DropOnFavouritesCard
  then show ?thesis
    by (cases "draggedProperty s")
       (auto simp: after_def run_def handleDropOnFavourites_def find_None_ids)
next
  case DropOnRemoveZone
  then show ?thesis
    by (cases "draggedProperty s")
       (auto simp: after_def run_def handleDropOnFavourites_def handleDropRemove_def
          removeFromFavourites_def find_None_ids)
qed (auto simp: after_def run_def handleSearch_def handleReset_def removeFromFavourites_def
       clearFavourites_def handleDragStart_def)

lemma storage_after_handlers:
  assumes "localStorage s = Snapshot (favourites s)"
  shows "localStorage (after (handlers e) s) = Snapshot (favourites (after (handlers e) s))"
  using assms
proof (cases e)
  case ClickDetailHeart
  then show ?thesis using assms
    by (cases "selectedProperty s")
       (auto simp: after_def run_def onToggleFavourite_def addToFavourites_def
          removeFromFavourites_def)
next
  case DropOnFavouritesCard
  then show ?thesis using assms
    by (cases "draggedProperty s")
       (auto simp: after_def run_def handleDropOnFavourites_def)
next
  case DropOnRemoveZone
  then show ?thesis using assms
    by (cases "draggedProperty s")
       (auto simp: after_def run_def handleDropOnFavourites_def handleDropRemove_def
          removeFromFavourites_def)
qed (auto simp: after_def run_def handleSearch_def handleReset_def removeFromFavourites_def
       clearFavourites_def handleDragStart_def onToggleFavourite_def addToFavourites_def)

lemma unique_ids_after_handlers:
  assumes "unique_ids (favourites s)"
  shows "unique_ids (favourites (after (handlers e) s))"
  using favourites_after_handlers[of e s] assms
  by (auto simp: unique_ids_filter unique_ids_append unique_ids_Nil)

lemma mount_favourites:
  assumes "mount st = Some s"
  shows "favourites s = (case st of Snapshot fs \<Rightarrow> fs | _ \<Rightarrow> [])"
    and "localStorage s = Snapshot (favourites s)"
  using assms
  by (cases st; auto simp: mount_def run_def first_render_def initial_def)+

lemma unique_ids_mount: "storage_ok st \<Longrightarrow> mount st = Some s \<Longrightarrow> unique_ids (favourites s)"
  by (cases st) (auto simp: mount_favourites(1) storage_ok_def unique_ids_def)

text \<open>
  The invariant of the reachable states: no identifier twice, and the storage entry holds
  the favourites.
\<close>

lemma reachable_invariant:
  assumes "storage_ok st" "reachable st s"
  shows "unique_ids (favourites s) \<and> localStorage s = Snapshot (favourites s)"
  using assms(2)
proof (induction rule: reachable.induct)
  case (start s)
  then show ?case using assms(1) by (simp add: unique_ids_mount mount_favourites(2))
next
  case (next_event s e)
  then show ?case
    by (simp add: step_def unique_ids_after_handlers storage_after_handlers)
next
  case (reload s s')
  then have "storage_ok (localStorage s)" by (simp add: storage_ok_def)
  then show ?case using reload.hyps(2) by (simp add: unique_ids_mount mount_favourites(2))
qed

text \<open>
  C4, as the specification has it: no reachable state has two favourites with the same
  identifier. It fails: the start of the page takes the stored list as it is, so a
  stored list that repeats an identifier gives a state that repeats it.
\<close>

theorem stored_duplicates_counterexample:
  "mount (Snapshot [house1, flat2, house1]) = Some repeated \<and>
   reachable (Snapshot [house1, flat2, house1]) repeated \<and>
   map prop_id (favourites repeated) = [IdNum 1, IdNum 2, IdNum 1] \<and>
   \<not> unique_ids (favourites repeated)"
proof -
  have m: "mount (Snapshot [house1, flat2, house1]) = Some repeated"
    by (simp add: mount_def repeated_def)
  then have r: "reachable (Snapshot [house1, flat2, house1]) repeated"
    by (rule reachable.start)
  have i: "map prop_id (favourites repeated) = [IdNum 1, IdNum 2, IdNum 1]" by code_simp
  then have "\<not> unique_ids (favourites repeated)" by (simp add: unique_ids_def)
  with m r i show ?thesis by blast
qed

text \<open>
  C4, amended. When the page starts with a storage entry that holds no list with a
  repeated identifier, no state it reaches, by events and by reloads, has two favourites
  with the same identifier. Every event keeps favourites that are free of repeated
  identifiers that way: the heart of a card and of the detail page (add or remove), a
  drop on the favourites card, a drop on the removal region, the remove button and
  clearing.
\<close>

theorem favourites_unique_ids:
  "(storage_ok st \<longrightarrow> reachable st s \<longrightarrow> unique_ids (favourites s)) \<and>
   (unique_ids (favourites s) \<longrightarrow> unique_ids (favourites (step s e)))"
proof
  show "storage_ok st \<longrightarrow> reachable st s \<longrightarrow> unique_ids (favourites s)"
    using reachable_invariant[of st s] by blast
  show "unique_ids (favourites s) \<longrightarrow> unique_ids (favourites (step s e))"
    by (simp add: step_def unique_ids_after_handlers)
qed

theorem favourites_unique_ids_witness:
  "storage_ok Absent \<and>
   reachable Absent holding \<and>
   draggedProperty holding = Some flat2 \<and>
   favourites holding = [house1] \<and>
   unique_ids (favourites holding) \<and>
   favourites (step holding DropOnFavouritesCard) = [house1, flat2] \<and>
   unique_ids (favourites (step holding DropOnFavouritesCard))"
proof -
  have h1: "storage_ok Absent" by (simp add: storage_ok_def)
  have "mount Absent = Some (first_render Absent)" by (simp add: mount_def)
  then have "reachable Absent (first_render Absent)" by (rule reachable.start)
  then have h2: "reachable Absent holding"
    unfolding holding_def loaded_def by (intro reachable.next_event)
  have d: "draggedProperty holding = Some flat2" by code_simp
  have f: "favourites holding = [house1]" by code_simp
  have g: "favourites (step holding DropOnFavouritesCard) = [house1, flat2]" by code_simp
  from favourites_unique_ids[of Absent holding DropOnFavouritesCard] h1 h2 d f g show ?thesis
    by blast
qed

text \<open>No handler runs when a drag ends outside the two drop regions.\<close>

lemma release_changes_nothing: "step s DropElsewhere = s"
  by (simp add: step_def after_def run_def)

text \<open>
  C5. A drag of the second property is let go outside the favourites card and the
  removal region: the reference to the dragged property is not cleared, where either
  drop handler ends by clearing it. The next drop on the favourites card, of whatever
  the browser lets be dropped there, then adds the property of the abandoned drag.
\<close>

theorem release_keeps_dragged:
  "draggedProperty dragging = Some flat2 \<and>
   favourites dragging = [] \<and>
   draggedProperty (step dragging DropElsewhere) = Some flat2 \<and>
   draggedProperty (step dragging DropOnFavouritesCard) = None \<and>
   draggedProperty (step dragging DropOnRemoveZone) = None \<and>
   favourites (step (step dragging DropElsewhere) DropOnFavouritesCard) = [flat2]"
  by code_simp

text \<open>
  C6. For every state and every property, adding a property whose identifier was just
  added changes nothing, so adding twice is adding once; adding a property whose
  identifier is among the favourites changes nothing.
\<close>

theorem add_idempotent:
  "(prop_id q = prop_id p \<longrightarrow>
      after (addToFavourites q) (after (addToFavourites p) s) = after (addToFavourites p) s) \<and>
   (prop_id p \<in> prop_id ` set (favourites s) \<longrightarrow> after (addToFavourites p) s = s)"
  by (simp add: after_addToFavourites)

theorem add_idempotent_witness:
  "prop_id house1 = prop_id house1 \<and>
   favourites (after (addToFavourites house1) loaded) = [house1] \<and>
   after (addToFavourites house1) (after (addToFavourites house1) loaded) =
     after (addToFavourites house1) loaded \<and>
   prop_id house1 \<in> prop_id ` set (favourites (after (addToFavourites house1) loaded))"
proof -
  have f: "favourites (after (addToFavourites house1) loaded) = [house1]" by code_simp
  have m: "prop_id house1 \<in> prop_id ` set (favourites (after (addToFavourites house1) loaded))"
    by (simp add: f)
  from add_idempotent[of house1 house1 loaded] f m show ?thesis by simp
qed

text \<open>
  C7. For every state and every property, two toggles in a row with the same identifier
  leave that identifier's membership in the favourites as it was.
\<close>

theorem toggle_self_inverse:
  "prop_id q = prop_id p \<Longrightarrow>
   isFavourite p (after (onToggleFavourite q) (after (onToggleFavourite p) s)) = isFavourite p s"
  by (auto simp: isFavourite_def list_ex_ids after_onToggleFavourite after_addToFavourites
      after_removeFromFavourites)

theorem toggle_self_inverse_witness:
  "prop_id house1 = prop_id house1 \<and>
   isFavourite house1 (after (onToggleFavourite house1) loaded) \<and>
   \<not> isFavourite house1 loaded \<and>
   isFavourite house1 (after (onToggleFavourite house1) (after (onToggleFavourite house1) loaded))
     = isFavourite house1 loaded"
proof -
  have a: "isFavourite house1 (after (onToggleFavourite house1) loaded)" by code_simp
  have b: "\<not> isFavourite house1 loaded" by code_simp
  from toggle_self_inverse[of house1 house1 loaded] a b show ?thesis by simp
qed

text \<open>
  C9. For every state, clearing the favourites with the confirmation refused leaves the
  state unchanged, and with the confirmation given leaves no favourite.
\<close>

theorem clear_needs_confirmation:
  "after (clearFavourites False) s = s \<and> favourites (after (clearFavourites True) s) = []"
  by (simp add: after_def run_def clearFavourites_def)

lemma count_list_filter:
  "P x \<Longrightarrow> count_list (filter P xs) x = count_list xs x"
  by (induction xs) auto

text \<open>
  C10. For every favourites list, also one with repeated identifiers, and every
  identifier, removing the identifier leaves no entry with it, and keeps the other
  entries: the result is a subsequence of the list, in which every entry with another
  identifier occurs as often as before.
\<close>

theorem remove_all_with_id:
  "i \<notin> prop_id ` set (favourites (after (removeFromFavourites i) s)) \<and>
   subseq (favourites (after (removeFromFavourites i) s)) (favourites s) \<and>
   (\<forall>f. prop_id f \<noteq> i \<longrightarrow>
      count_list (favourites (after (removeFromFavourites i) s)) f = count_list (favourites s) f)"
  by (auto simp: after_removeFromFavourites count_list_filter)

theorem remove_all_with_id_witness:
  "favourites repeated = [house1, flat2, house1] \<and>
   favourites (after (removeFromFavourites (IdNum 1)) repeated) = [flat2] \<and>
   prop_id flat2 \<noteq> IdNum 1 \<and>
   count_list (favourites (after (removeFromFavourites (IdNum 1)) repeated)) flat2 =
     count_list (favourites repeated) flat2"
proof -
  have a: "favourites repeated = [house1, flat2, house1]" by code_simp
  have b: "favourites (after (removeFromFavourites (IdNum 1)) repeated) = [flat2]" by code_simp
  have c: "prop_id flat2 \<noteq> IdNum 1" by code_simp
  from remove_all_with_id[of "IdNum 1" repeated] c
  have "count_list (favourites (after (removeFromFavourites (IdNum 1)) repeated)) flat2 =
     count_list (favourites repeated) flat2" by blast
  with a b c show ?thesis by blast
qed

end
